theory Spec2Isabelle
  imports Main
begin

section \<open>HelixClipsAPI: the clips facade of the Helix client\<close>

text \<open>
  A shallow embedding of \<^verbatim>\<open>src/API/Helix/Clips/HelixClipsAPI.ts\<close>. The class
  has four asynchronous methods; each of them builds one options object, hands it to the
  client's \<^verbatim>\<open>apiCall\<close> and shapes the answer. The embedding keeps TypeScript's
  declared types (interfaces are records, the string-literal union is a datatype,
  optional properties are options), writes a rejected promise as the left summand of a
  sum, and returns the list of options objects handed to \<^verbatim>\<open>apiCall\<close> together
  with the outcome, so that the number of outbound requests can be stated.
\<close>

subsection \<open>Data\<close>

text \<open>
  \<^verbatim>\<open>export type HelixClipFilterType = 'broadcaster_id' | 'game_id' | 'id';\<close>
  The three literals are the constructors; \<open>HelixClipFilterType_str\<close> gives the string
  each of them is at run time (the string the computed property key of \<^verbatim>\<open>getClips\<close>
  evaluates to).
\<close>

datatype HelixClipFilterType = Broadcaster_id | Game_id | Id

fun HelixClipFilterType_str :: "HelixClipFilterType \<Rightarrow> string" where
  "HelixClipFilterType_str Broadcaster_id = ''broadcaster_id''"
| "HelixClipFilterType_str Game_id = ''game_id''"
| "HelixClipFilterType_str Id = ''id''"

text \<open>
  Modelled from the spec: the interface \<^verbatim>\<open>HelixPagination\<close> (imported from
  \<^verbatim>\<open>../HelixPagination\<close>) is not among the sources. The spec names its content as
  ``pagination cursors (before/after) and a result-count limit'', and
  \<^verbatim>\<open>getClipsByIds\<close> builds a filter without any of the three, so all three are
  optional. The cursors are strings; the type of the limit is left as the parameter
  \<open>'n\<close>.
\<close>

record 'n HelixPagination =
  after :: "string option"
  before :: "string option"
  limit :: "'n option"

text \<open>\<^verbatim>\<open>export interface HelixClipFilter extends HelixPagination\<close>\<close>

record 'n HelixClipFilter = "'n HelixPagination" +
  filterType :: HelixClipFilterType
  ids :: "string list"

text \<open>\<^verbatim>\<open>export interface HelixClipCreateParams\<close>; \<^verbatim>\<open>createAfterDelay?: boolean\<close>.\<close>

record HelixClipCreateParams =
  channelId :: string
  createAfterDelay :: "bool option"

text \<open>
  \<^verbatim>\<open>export interface HelixClipCreateResponse\<close>. The field \<^verbatim>\<open>id\<close> is written
  \<open>id'\<close>, since \<open>id\<close> is HOL's identity function.
\<close>

record HelixClipCreateResponse =
  id' :: string
  edit_url :: string

text \<open>
  The values that stand in the query of an options object: \<^verbatim>\<open>undefined\<close> (a property
  of the object literal whose value is an omitted optional parameter), a string, an array
  of strings, and a value of the limit's type.
\<close>

datatype 'n QueryValue =
  Undefined
  | Str string
  | StrArray "string list"
  | Limit 'n

fun optStr :: "string option \<Rightarrow> 'n QueryValue" where
  "optStr None = Undefined"
| "optStr (Some s) = Str s"

fun optLimit :: "'n option \<Rightarrow> 'n QueryValue" where
  "optLimit None = Undefined"
| "optLimit (Some n) = Limit n"

text \<open>
  The enum \<^verbatim>\<open>TwitchApiCallType\<close> is declared in \<^verbatim>\<open>TwitchClient\<close>, which is not
  among the sources; this module refers to its member \<^verbatim>\<open>Helix\<close> only, and the
  members it does not name are the one constructor \<open>OtherApiCallType\<close>.
\<close>

datatype TwitchApiCallType = Helix | OtherApiCallType

text \<open>
  The options object handed to \<^verbatim>\<open>apiCall\<close>. The query is a JavaScript object: a
  finite map from property names to values, built property by property in the order of
  the object literal (a later property of the same name would replace an earlier one).
  The properties \<^verbatim>\<open>type\<close> and \<^verbatim>\<open>method\<close> are written \<open>calltype\<close> and
  \<open>method'\<close>: the plain names are reserved words of Isabelle.
\<close>

record 'n TwitchApiCallOptions =
  calltype :: TwitchApiCallType
  url :: string
  method' :: string
  scope :: "string option"
  query :: "string \<rightharpoonup> 'n QueryValue"

text \<open>
  \<^verbatim>\<open>HelixResponse<T>\<close> (imported, not among the sources): \<^verbatim>\<open>getClips\<close> reads its
  \<^verbatim>\<open>data\<close> and its \<^verbatim>\<open>pagination.cursor\<close>. The cursor's type is the parameter \<open>'c\<close>.
\<close>

record 'c HelixResponsePagination =
  cursor :: 'c

record ('t, 'c) HelixResponse =
  data :: 't
  pagination :: "'c HelixResponsePagination"

text \<open>
  The answer type of the POST request, \<^verbatim>\<open>{ data: [HelixClipCreateResponse] }\<close>. The
  one-element tuple type is an array at run time, which the JSON answer fills; it is a
  list here, so that the access \<^verbatim>\<open>result.data[0]\<close> has its empty case. The
  property \<^verbatim>\<open>data\<close> is written \<open>created\<close>, apart from the \<open>data\<close> of
  \<open>HelixResponse\<close>.
\<close>

record HelixClipCreateResult =
  created :: "HelixClipCreateResponse list"

text \<open>
  What the awaited promise of a method settles to: rejected with the error the
  dispatcher raised, rejected with the \<^verbatim>\<open>TypeError\<close> of reading a property of
  \<^verbatim>\<open>undefined\<close>, or fulfilled.
\<close>

datatype 'e Rejection = Dispatcher 'e | TypeError

text \<open>
  The client (\<^verbatim>\<open>this._client\<close>, a \<^verbatim>\<open>TwitchClient\<close>, not among the sources).
  Its method \<^verbatim>\<open>apiCall<T>\<close> is the shared HTTP dispatcher: given the options it either
  raises an error \<open>'e\<close> or answers with a \<open>'r\<close>; the type argument \<^verbatim>\<open>T\<close> of each call
  site is the instance of \<open>'r\<close>.
\<close>

record ('n, 'e, 'r) TwitchClient =
  apiCall :: "'n TwitchApiCallOptions \<Rightarrow> 'e + 'r"

text \<open>
  Modelled from the spec: the class \<^verbatim>\<open>HelixClip\<close> (imported from \<^verbatim>\<open>./HelixClip\<close>)
  is not among the sources. The spec: ``an opaque data-transfer object returned by the
  vendor API, wrapped without transformation except for attaching a reference to the
  calling client''. \<open>new_HelixClip\<close> is its constructor.
\<close>

record ('d, 'k) HelixClip =
  clip_data :: 'd
  clip_client :: 'k

definition new_HelixClip :: "'d \<Rightarrow> 'k \<Rightarrow> ('d, 'k) HelixClip" where
  "new_HelixClip d k = \<lparr>clip_data = d, clip_client = k\<rparr>"

text \<open>
  \<^verbatim>\<open>HelixPaginatedResult<T>\<close>: the object literal \<^verbatim>\<open>getClips\<close> returns,
  \<^verbatim>\<open>{ data: ..., cursor: ... }\<close>. Its properties are written \<open>result_data\<close> and
  \<open>result_cursor\<close>, apart from those of the dispatcher's answer.
\<close>

record ('a, 'c) HelixPaginatedResult =
  result_data :: 'a
  result_cursor :: 'c

subsection \<open>The methods\<close>

text \<open>
  A method's outcome: the options objects it handed to \<^verbatim>\<open>apiCall\<close>, in order, and
  what its promise settles to.
\<close>

type_synonym ('n, 'e, 'a) Outcome = "'n TwitchApiCallOptions list \<times> ('e Rejection + 'a)"

text \<open>
  The query of \<^verbatim>\<open>getClips\<close>:
  \<^verbatim>\<open>{ [filterType]: ids, after, before, first: limit }\<close>.
\<close>

definition getClips_query :: "'n HelixClipFilter \<Rightarrow> (string \<rightharpoonup> 'n QueryValue)" where
  "getClips_query params =
     (let filterType = filterType params; ids = ids params; after = after params;
          before = before params; limit = limit params
      in Map.empty
           (HelixClipFilterType_str filterType \<mapsto> StrArray ids,
            ''after'' \<mapsto> optStr after,
            ''before'' \<mapsto> optStr before,
            ''first'' \<mapsto> optLimit limit))"

definition getClips_options :: "'n HelixClipFilter \<Rightarrow> 'n TwitchApiCallOptions" where
  "getClips_options params =
     \<lparr>calltype = Helix, url = ''clips'', method' = ''GET'', scope = None,
      query = getClips_query params\<rparr>"

definition getClips ::
  "('n, 'e, ('d list, 'c) HelixResponse) TwitchClient \<Rightarrow> 'n HelixClipFilter \<Rightarrow>
     ('n, 'e, (('d, ('n, 'e, ('d list, 'c) HelixResponse) TwitchClient) HelixClip list, 'c)
        HelixPaginatedResult) Outcome" where
  "getClips client params =
     (let options = getClips_options params
      in ([options],
          case apiCall client options of
            Inl e \<Rightarrow> Inl (Dispatcher e)
          | Inr result \<Rightarrow>
              Inr \<lparr>result_data = map (\<lambda>d. new_HelixClip d client) (data result),
                   result_cursor = cursor (pagination result)\<rparr>))"

text \<open>
  The three convenience methods. \<^verbatim>\<open>{...pagination, filterType: f, ids: [id]}\<close>
  copies the properties of \<^verbatim>\<open>pagination\<close> and adds the two of the filter
  (the parameters \<^verbatim>\<open>id\<close>, \<^verbatim>\<open>pagination\<close> and \<^verbatim>\<open>ids\<close> are written
  \<open>an_id\<close>, \<open>pagination'\<close> and \<open>ids'\<close>: the plain names are constants here).
  \<^verbatim>\<open>getClipsByIds\<close> gives the filter no pagination property, so the three are
  \<^verbatim>\<open>undefined\<close> when \<^verbatim>\<open>getClips\<close> destructures them.
\<close>

definition getClipsForBroadcaster ::
  "('n, 'e, ('d list, 'c) HelixResponse) TwitchClient \<Rightarrow> string \<Rightarrow> 'n HelixPagination \<Rightarrow>
     ('n, 'e, (('d, ('n, 'e, ('d list, 'c) HelixResponse) TwitchClient) HelixClip list, 'c)
        HelixPaginatedResult) Outcome" where
  "getClipsForBroadcaster client an_id pagination' =
     getClips client
       (HelixPagination.extend pagination'
          (HelixClipFilter.fields Broadcaster_id [an_id]))"

definition getClipsForGame ::
  "('n, 'e, ('d list, 'c) HelixResponse) TwitchClient \<Rightarrow> string \<Rightarrow> 'n HelixPagination \<Rightarrow>
     ('n, 'e, (('d, ('n, 'e, ('d list, 'c) HelixResponse) TwitchClient) HelixClip list, 'c)
        HelixPaginatedResult) Outcome" where
  "getClipsForGame client an_id pagination' =
     getClips client
       (HelixPagination.extend pagination'
          (HelixClipFilter.fields Game_id [an_id]))"

definition getClipsByIds ::
  "('n, 'e, ('d list, 'c) HelixResponse) TwitchClient \<Rightarrow> string list \<Rightarrow>
     ('n, 'e, (('d, ('n, 'e, ('d list, 'c) HelixResponse) TwitchClient) HelixClip list, 'c)
        HelixPaginatedResult) Outcome" where
  "getClipsByIds client ids' =
     getClips client
       \<lparr>after = None, before = None, limit = None, filterType = Id, ids = ids'\<rparr>"

text \<open>
  \<^verbatim>\<open>createClip\<close>. The destructuring \<^verbatim>\<open>createAfterDelay = false\<close> takes the default
  when the property is \<^verbatim>\<open>undefined\<close>; \<^verbatim>\<open>toString\<close> of a boolean is
  \<^verbatim>\<open>'true'\<close> or \<^verbatim>\<open>'false'\<close>.
\<close>

fun boolean_toString :: "bool \<Rightarrow> string" where
  "boolean_toString True = ''true''"
| "boolean_toString False = ''false''"

definition createClip_options :: "HelixClipCreateParams \<Rightarrow> 'n TwitchApiCallOptions" where
  "createClip_options params =
     (let channelId = channelId params;
          createAfterDelay = (case createAfterDelay params of None \<Rightarrow> False | Some b \<Rightarrow> b)
      in \<lparr>calltype = Helix, url = ''clips'', method' = ''POST'', scope = Some ''clips:edit'',
          query = Map.empty
            (''broadcaster_id'' \<mapsto> Str channelId,
             ''has_delay'' \<mapsto> Str (boolean_toString createAfterDelay))\<rparr>)"

text \<open>
  \<^verbatim>\<open>result.data[0].id\<close>: index 0 of an empty array is \<^verbatim>\<open>undefined\<close>, and reading
  \<^verbatim>\<open>id\<close> of \<^verbatim>\<open>undefined\<close> throws a \<^verbatim>\<open>TypeError\<close>.
\<close>

definition createClip ::
  "('n, 'e, HelixClipCreateResult) TwitchClient \<Rightarrow> HelixClipCreateParams \<Rightarrow>
     ('n, 'e, string) Outcome" where
  "createClip client params =
     (let options = createClip_options params
      in ([options],
          case apiCall client options of
            Inl e \<Rightarrow> Inl (Dispatcher e)
          | Inr result \<Rightarrow>
              (case created result of
                 [] \<Rightarrow> Inl TypeError
               | r # _ \<Rightarrow> Inr (id' r))))"


text \<open>
  A client whose dispatcher settles every call the same way; the concrete clients of the
  examples below are of this form.
\<close>

definition answering :: "'e + 'r \<Rightarrow> ('n, 'e, 'r) TwitchClient" where
  "answering a = \<lparr>apiCall = (\<lambda>options. a)\<rparr>"

subsection \<open>Concrete requests and answers\<close>

text \<open>
  A filter and a create request, and three answers of the dispatcher: a page of two clip
  records with a cursor (the records are opaque, strings stand for them), the answer to a
  create request with its one element, and an answer to a create request whose array is
  empty.
\<close>

definition sample_filter :: "nat HelixClipFilter" where
  "sample_filter =
     \<lparr>after = None, before = None, limit = Some 2, filterType = Game_id, ids = [''488552'']\<rparr>"

definition sample_create :: HelixClipCreateParams where
  "sample_create = \<lparr>channelId = ''125328655'', createAfterDelay = None\<rparr>"

definition two_clips_response :: "(string list, string) HelixResponse" where
  "two_clips_response =
     \<lparr>data = [''clip one'', ''clip two''], pagination = \<lparr>cursor = ''eyJiIjpudWxsfQ''\<rparr>\<rparr>"

definition one_clip_result :: HelixClipCreateResult where
  "one_clip_result = \<lparr>created = [\<lparr>id' = ''FiveWordsForClipId'', edit_url = ''edit''\<rparr>]\<rparr>"

definition no_clip_result :: HelixClipCreateResult where
  "no_clip_result = \<lparr>created = []\<rparr>"

section \<open>Properties\<close>

subsection \<open>Auxiliary facts\<close>

lemma getClips_calls: "fst (getClips client params) = [getClips_options params]"
  by (simp add: getClips_def Let_def)

lemma getClips_options_query: "query (getClips_options params) = getClips_query params"
  by (simp add: getClips_options_def)

lemma createClip_calls: "fst (createClip client params) = [createClip_options params]"
  by (simp add: createClip_def Let_def)

text \<open>The spread of a pagination object into a filter, field by field.\<close>

lemma spread_pagination:
  "HelixPagination.extend p (HelixClipFilter.fields f i) =
     \<lparr>after = after p, before = before p, limit = limit p, filterType = f, ids = i\<rparr>"
  by (cases p) (simp add: HelixPagination.defs HelixClipFilter.defs)

text \<open>
  The embeddings of the optional parameters and of the discriminator lose nothing:
  different parameters give different query values and different keys.
\<close>

lemma optStr_inj: "inj optStr"
  by (rule injI) (metis optStr.elims QueryValue.distinct(1) QueryValue.inject(1))

lemma optLimit_inj: "inj optLimit"
  by (rule injI) (metis optLimit.elims QueryValue.distinct(5) QueryValue.inject(3))

lemma HelixClipFilterType_str_inj: "inj HelixClipFilterType_str"
proof (rule injI)
  fix x y
  assume "HelixClipFilterType_str x = HelixClipFilterType_str y"
  then show "x = y"
    by (cases x; cases y) simp_all
qed

lemma getClips_query_holders:
  "{k. getClips_query params k = Some (StrArray (ids params))} =
     {HelixClipFilterType_str (filterType params)}"
  by (cases "filterType params"; cases "after params"; cases "before params";
      cases "limit params")
    (auto simp add: getClips_query_def Let_def split: if_splits)

lemma dom_getClips_query:
  "dom (getClips_query params) =
     {HelixClipFilterType_str (filterType params), ''after'', ''before'', ''first''}"
  by (auto simp add: getClips_query_def Let_def)

lemma getClips_query_filter_keys:
  "dom (getClips_query params) \<inter> {''broadcaster_id'', ''game_id'', ''id''} =
     {HelixClipFilterType_str (filterType params)}"
  by (cases "filterType params") (simp_all add: dom_getClips_query)

subsection \<open>Listing clips: the shape of the request\<close>

text \<open>
  Claim C1. The filter-type discriminator decides the one query key that carries the IDs.
  In the single options object each method hands to the dispatcher, the set of query keys
  whose value is the array of IDs is exactly \<open>{''broadcaster_id''}\<close> for
  \<open>getClipsForBroadcaster\<close>, \<open>{''game_id''}\<close> for \<open>getClipsForGame\<close>, \<open>{''id''}\<close> for
  \<open>getClipsByIds\<close>, and for \<open>getClips\<close> in general the one key that is the string of
  \<open>filterType params\<close>.
\<close>

theorem filterType_selects_query_key:
  "map (\<lambda>options. {k. query options k = Some (StrArray [an_id])})
       (fst (getClipsForBroadcaster client an_id pagination')) = [{''broadcaster_id''}]
   \<and> map (\<lambda>options. {k. query options k = Some (StrArray [an_id])})
       (fst (getClipsForGame client an_id pagination')) = [{''game_id''}]
   \<and> map (\<lambda>options. {k. query options k = Some (StrArray ids')})
       (fst (getClipsByIds client ids')) = [{''id''}]
   \<and> map (\<lambda>options. {k. query options k = Some (StrArray (ids params))})
       (fst (getClips client params)) = [{HelixClipFilterType_str (filterType params)}]"
proof -
  have holders:
    "{k. getClips_query \<lparr>after = a, before = b, limit = l, filterType = f, ids = i\<rparr> k
           = Some (StrArray i)} = {HelixClipFilterType_str f}"
    for a b f i and l :: "'a option"
    using getClips_query_holders
      [of "\<lparr>after = a, before = b, limit = l, filterType = f, ids = i\<rparr>"]
    by simp
  show ?thesis
    by (simp add: getClipsForBroadcaster_def getClipsForGame_def getClipsByIds_def
        spread_pagination getClips_calls getClips_options_query holders
        getClips_query_holders)
qed

text \<open>
  Claim C3. The pagination parameters pass through unchanged: in the options object of
  \<open>getClips\<close> the query's \<open>after\<close> is \<open>after params\<close>, its \<open>before\<close> is
  \<open>before params\<close>, and its \<open>first\<close> is \<open>limit params\<close> (an omitted parameter is the
  value \<open>Undefined\<close> under its key).
\<close>

theorem pagination_passes_through:
  "map (\<lambda>options. (query options ''after'', query options ''before'', query options ''first''))
       (fst (getClips client params)) =
     [(Some (optStr (after params)), Some (optStr (before params)),
       Some (optLimit (limit params)))]"
  by (simp add: getClips_calls getClips_options_query getClips_query_def Let_def)

text \<open>
  Claim C4. Exactly one filter dimension per request: of the three query keys
  \<open>broadcaster_id\<close>, \<open>game_id\<close> and \<open>id\<close>, exactly one is a key of the outgoing query
  of \<open>getClips\<close>, and so for each of the three convenience methods.
\<close>

theorem exactly_one_filter_key:
  "map (\<lambda>options. card (dom (query options) \<inter> {''broadcaster_id'', ''game_id'', ''id''}))
       (fst (getClips client params)) = [1]
   \<and> map (\<lambda>options. card (dom (query options) \<inter> {''broadcaster_id'', ''game_id'', ''id''}))
       (fst (getClipsForBroadcaster client an_id pagination')) = [1]
   \<and> map (\<lambda>options. card (dom (query options) \<inter> {''broadcaster_id'', ''game_id'', ''id''}))
       (fst (getClipsForGame client an_id pagination')) = [1]
   \<and> map (\<lambda>options. card (dom (query options) \<inter> {''broadcaster_id'', ''game_id'', ''id''}))
       (fst (getClipsByIds client ids')) = [1]"
  by (simp add: getClipsForBroadcaster_def getClipsForGame_def getClipsByIds_def
      getClips_calls getClips_options_query getClips_query_filter_keys)

text \<open>
  Claim C5. Each of the three specialised listing methods fixes the discriminator and
  forwards to \<open>getClips\<close>: \<open>getClipsForBroadcaster\<close> and \<open>getClipsForGame\<close> with the
  pagination's three fields, the discriminator and the one-element list of the ID;
  \<open>getClipsByIds\<close> with the discriminator \<open>Id\<close>, the IDs and no pagination. The
  equalities are of the whole outcome: the requests made and the settled result.
\<close>

theorem convenience_methods_forward:
  "getClipsForBroadcaster client an_id pagination' =
     getClips client \<lparr>after = after pagination', before = before pagination',
       limit = limit pagination', filterType = Broadcaster_id, ids = [an_id]\<rparr>
   \<and> getClipsForGame client an_id pagination' =
     getClips client \<lparr>after = after pagination', before = before pagination',
       limit = limit pagination', filterType = Game_id, ids = [an_id]\<rparr>
   \<and> getClipsByIds client ids' =
     getClips client \<lparr>after = None, before = None, limit = None, filterType = Id, ids = ids'\<rparr>"
  by (simp add: getClipsForBroadcaster_def getClipsForGame_def getClipsByIds_def
      spread_pagination)

subsection \<open>Listing clips: the answer\<close>

text \<open>
  Claim C6. \<open>getClips\<close> hands exactly one options object to the dispatcher, a GET for
  \<open>clips\<close>. When the dispatcher answers it, \<open>getClips\<close> returns a page whose list has
  the length of the answer's array, holds the answer's records in their order and
  unchanged, each with the calling client attached, and whose cursor is the answer's
  \<open>pagination.cursor\<close>.
\<close>

theorem getClips_maps_response:
  assumes "apiCall client (getClips_options params) = Inr result"
  shows "map method' (fst (getClips client params)) = [''GET'']
   \<and> map url (fst (getClips client params)) = [''clips'']
   \<and> (\<exists>page. snd (getClips client params) = Inr page
        \<and> length (result_data page) = length (data result)
        \<and> map clip_data (result_data page) = data result
        \<and> map clip_client (result_data page) = replicate (length (data result)) client
        \<and> result_cursor page = cursor (pagination result))"
  using assms
  by (simp add: getClips_def Let_def getClips_options_def new_HelixClip_def comp_def
      map_replicate_const)

theorem getClips_maps_response_witness:
  "apiCall (answering (Inr two_clips_response)) (getClips_options sample_filter) =
     (Inr two_clips_response :: unit + (string list, string) HelixResponse)
   \<and> map method' (fst (getClips (answering (Inr two_clips_response) ::
         (nat, unit, (string list, string) HelixResponse) TwitchClient) sample_filter)) = [''GET'']
   \<and> (\<exists>page. snd (getClips (answering (Inr two_clips_response) ::
           (nat, unit, (string list, string) HelixResponse) TwitchClient) sample_filter) = Inr page
        \<and> length (result_data page) = 2
        \<and> map clip_data (result_data page) = [''clip one'', ''clip two'']
        \<and> map clip_client (result_data page) =
            [answering (Inr two_clips_response), answering (Inr two_clips_response)]
        \<and> result_cursor page = ''eyJiIjpudWxsfQ'')"
proof -
  let ?client = "answering (Inr two_clips_response) ::
    (nat, unit, (string list, string) HelixResponse) TwitchClient"
  have answered: "apiCall ?client (getClips_options sample_filter) = Inr two_clips_response"
    by (simp add: answering_def)
  have response: "data two_clips_response = [''clip one'', ''clip two'']"
    "cursor (pagination two_clips_response) = ''eyJiIjpudWxsfQ''"
    by (simp_all add: two_clips_response_def)
  have two: "replicate 2 x = [x, x]" for x :: "'z"
    by (simp add: numeral_2_eq_2)
  from getClips_maps_response [OF answered] answered show ?thesis
    unfolding response by (simp add: two numeral_2_eq_2)
qed

subsection \<open>Creating a clip\<close>

text \<open>
  Claim C7. \<open>createClip\<close> hands exactly one options object to the dispatcher, a POST for
  \<open>clips\<close>, whose query has the two keys \<open>broadcaster_id\<close> and \<open>has_delay\<close>: the first
  holds \<open>channelId params\<close>, the second the string form of the delay flag as
  \<open>createClip\<close> destructures it (the given boolean; \<open>False\<close> when it is omitted).
\<close>

theorem createClip_request:
  "map method' (fst (createClip client params)) = [''POST'']
   \<and> map url (fst (createClip client params)) = [''clips'']
   \<and> map (\<lambda>options. dom (query options)) (fst (createClip client params)) =
       [{''broadcaster_id'', ''has_delay''}]
   \<and> map (\<lambda>options. query options ''broadcaster_id'') (fst (createClip client params)) =
       [Some (Str (channelId params))]
   \<and> map (\<lambda>options. query options ''has_delay'') (fst (createClip client params)) =
       [Some (Str (boolean_toString
          (case createAfterDelay params of None \<Rightarrow> False | Some b \<Rightarrow> b)))]"
  by (auto simp add: createClip_calls createClip_options_def Let_def)

text \<open>
  Claim C10. An omitted \<open>createAfterDelay\<close> is taken as false, so the query's
  \<open>has_delay\<close> is the string \<open>false\<close>; a given one makes it \<open>true\<close> or \<open>false\<close>
  according to the boolean.
\<close>

theorem has_delay_default:
  "map (\<lambda>options. query options ''has_delay'')
       (fst (createClip client (params\<lparr>createAfterDelay := None\<rparr>))) = [Some (Str ''false'')]
   \<and> map (\<lambda>options. query options ''has_delay'')
       (fst (createClip client (params\<lparr>createAfterDelay := Some True\<rparr>))) = [Some (Str ''true'')]
   \<and> map (\<lambda>options. query options ''has_delay'')
       (fst (createClip client (params\<lparr>createAfterDelay := Some False\<rparr>))) =
         [Some (Str ''false'')]"
  by (simp add: createClip_calls createClip_options_def Let_def)

text \<open>
  Claim C2. When the dispatcher answers the create request with a one-element array,
  \<open>createClip\<close> returns exactly the \<open>id\<close> of that element.
\<close>

theorem createClip_returns_first_id:
  assumes "apiCall client (createClip_options params) = Inr result"
    and "created result = [r]"
  shows "snd (createClip client params) = Inr (id' r)"
  using assms by (simp add: createClip_def Let_def)

theorem createClip_returns_first_id_witness:
  "apiCall (answering (Inr one_clip_result)) (createClip_options sample_create :: nat TwitchApiCallOptions) =
     (Inr one_clip_result :: unit + HelixClipCreateResult)
   \<and> created one_clip_result = [\<lparr>id' = ''FiveWordsForClipId'', edit_url = ''edit''\<rparr>]
   \<and> snd (createClip (answering (Inr one_clip_result) ::
         (nat, unit, HelixClipCreateResult) TwitchClient) sample_create) =
       Inr ''FiveWordsForClipId''"
proof -
  let ?client = "answering (Inr one_clip_result) ::
    (nat, unit, HelixClipCreateResult) TwitchClient"
  have answered: "apiCall ?client (createClip_options sample_create) = Inr one_clip_result"
    by (simp add: answering_def)
  have single: "created one_clip_result =
      [\<lparr>id' = ''FiveWordsForClipId'', edit_url = ''edit''\<rparr>]"
    by (simp add: one_clip_result_def)
  from createClip_returns_first_id [OF answered single] answered single show ?thesis
    by simp
qed

text \<open>
  Claim C9. \<open>createClip\<close> reads index 0 of the answer's array without a check for
  emptiness. On an answer whose array has a first element the read is safe and the result
  is that element's \<open>id\<close>, whatever follows it; on an answer whose array is empty the read
  is out of bounds and \<open>createClip\<close> has no result: it fails with a \<open>TypeError\<close>.
\<close>

theorem createClip_unguarded_index:
  "(apiCall client (createClip_options params) = Inr result \<and> created result = r # rs
      \<longrightarrow> snd (createClip client params) = Inr (id' r))
   \<and> (apiCall client' (createClip_options params') = Inr result' \<and> created result' = []
      \<longrightarrow> snd (createClip client' params') = Inl TypeError)"
  by (simp add: createClip_def Let_def)

theorem createClip_unguarded_index_witness:
  "apiCall (answering (Inr one_clip_result))
       (createClip_options sample_create :: nat TwitchApiCallOptions) =
     (Inr one_clip_result :: unit + HelixClipCreateResult)
   \<and> created one_clip_result = \<lparr>id' = ''FiveWordsForClipId'', edit_url = ''edit''\<rparr> # []
   \<and> snd (createClip (answering (Inr one_clip_result) ::
         (nat, unit, HelixClipCreateResult) TwitchClient) sample_create) =
       Inr ''FiveWordsForClipId''
   \<and> apiCall (answering (Inr no_clip_result))
       (createClip_options sample_create :: nat TwitchApiCallOptions) =
     (Inr no_clip_result :: unit + HelixClipCreateResult)
   \<and> created no_clip_result = []
   \<and> snd (createClip (answering (Inr no_clip_result) ::
         (nat, unit, HelixClipCreateResult) TwitchClient) sample_create) = Inl TypeError"
proof -
  let ?one = "answering (Inr one_clip_result) ::
    (nat, unit, HelixClipCreateResult) TwitchClient"
  let ?none = "answering (Inr no_clip_result) ::
    (nat, unit, HelixClipCreateResult) TwitchClient"
  have one: "apiCall ?one (createClip_options sample_create) = Inr one_clip_result"
    "created one_clip_result = \<lparr>id' = ''FiveWordsForClipId'', edit_url = ''edit''\<rparr> # []"
    by (simp_all add: answering_def one_clip_result_def)
  have none: "apiCall ?none (createClip_options sample_create) = Inr no_clip_result"
    "created no_clip_result = []"
    by (simp_all add: answering_def no_clip_result_def)
  from createClip_unguarded_index [of ?one sample_create one_clip_result
      "\<lparr>id' = ''FiveWordsForClipId'', edit_url = ''edit''\<rparr>" "[]"
      ?none sample_create no_clip_result] one none
  show ?thesis by simp
qed

subsection \<open>Errors\<close>



end
